theory Spec2Isabelle
  imports Main "HOL-Library.Sublist"
begin

section \<open>The execution harness: \<^verbatim>\<open>run_checker.py\<close>\<close>

subsection \<open>Python values and exceptions\<close>

text \<open>
  An exception carries its class name and the text \<^verbatim>\<open>str(e)\<close>. \<open>Exc\<close> is an instance of
  \<^verbatim>\<open>Exception\<close> or of a subclass of it (\<^verbatim>\<open>ValueError\<close>, \<^verbatim>\<open>TypeError\<close>, \<^verbatim>\<open>SyntaxError\<close>, ...);
  \<open>BaseExc\<close> is an instance of \<^verbatim>\<open>BaseException\<close> that is not an \<^verbatim>\<open>Exception\<close>
  (\<^verbatim>\<open>SystemExit\<close>, \<^verbatim>\<open>KeyboardInterrupt\<close>, \<^verbatim>\<open>GeneratorExit\<close>).
\<close>

datatype exc = Exc string string | BaseExc string string

fun is_Exception :: "exc \<Rightarrow> bool" where
  "is_Exception (Exc c m) = True"
| "is_Exception (BaseExc c m) = False"










subsection \<open>What the harness prints\<close>







subsection \<open>\<^verbatim>\<open>run_generated_checker\<close>\<close>







subsection \<open>The validator as the harness meets it\<close>



subsection \<open>Sample validators\<close>

text \<open>
  Concrete validator sources, and how Python runs them. The process state of the
  samples is a number, the value of the attribute \<^verbatim>\<open>builtins.runs\<close> (0 while it is not set).
  \<^descr>[\<open>src_too_short\<close>] \<^verbatim>\<open>return (False, "too short", "output must exceed 10 words")\<close>
  \<^descr>[\<open>src_always_true\<close>] \<^verbatim>\<open>return (True, "fine", "none")\<close>
  \<^descr>[\<open>src_exc_reason\<close>] \<^verbatim>\<open>return (False, ValueError("bad"), None)\<close>: the reason is an
    exception object, not its text
  \<^descr>[\<open>src_list\<close>] \<^verbatim>\<open>return [True, None, None]\<close>: a list where a tuple is expected
  \<^descr>[\<open>src_pair\<close>] \<^verbatim>\<open>return (False, "too short")\<close>
  \<^descr>[\<open>src_no_entry\<close>] defines \<^verbatim>\<open>check\<close> and nothing called \<^verbatim>\<open>is_valid_output\<close>
  \<^descr>[\<open>src_exit\<close>] \<^verbatim>\<open>raise SystemExit(1)\<close> at module level
  \<^descr>[\<open>src_raise\<close>] the entry point does \<^verbatim>\<open>raise RuntimeError(output)\<close>
  \<^descr>[\<open>src_nonbool\<close>] \<^verbatim>\<open>return ("ok", None, None)\<close>
  \<^descr>[\<open>src_loop\<close>] the entry point is \<^verbatim>\<open>while True: pass\<close>
  \<^descr>[\<open>src_stateful\<close>] counts its loads in \<^verbatim>\<open>builtins.runs\<close> and passes on the first only
  Every other text is taken to be rejected by the compiler (\<^verbatim>\<open>SyntaxError\<close>), as the
  text \<^verbatim>\<open>def\<close> is.
\<close>

text \<open>The line feed, a text in double quotes, and the header line of the entry point.\<close>

definition nl :: string where "nl = [CHR 0x0A]"




section \<open>The stages around the oracle\<close>

subsection \<open>Data read from JSON\<close>

text \<open>
  What \<^verbatim>\<open>json.loads\<close> builds: \<^verbatim>\<open>None\<close>, booleans, integers, strings, lists, and
  dictionaries with string keys, in the order of the text. Floats are left out.
\<close>

datatype json =
    JNull
  | JBool bool
  | JNum int
  | JStr string
  | JArr "json list"
  | JObj "(string \<times> json) list"

type_synonym pydict = "(string \<times> json) list"

text \<open>An exception of the stage code: an instance of \<^verbatim>\<open>Exception\<close>, its class and text.\<close>

datatype py_error = Py_error string string

fun error_text :: "py_error \<Rightarrow> string" where
  "error_text (Py_error c m) = m"

text \<open>The arrow U+2192 of the category names, as its UTF-8 bytes.\<close>

definition arrow :: string where
  "arrow = [CHR 0xE2, CHR 0x86, CHR 0x92]"

text \<open>\<^verbatim>\<open>d.get(k)\<close> and \<^verbatim>\<open>d.get(k, default)\<close> on a dictionary.\<close>

definition get_default :: "pydict \<Rightarrow> string \<Rightarrow> json \<Rightarrow> json" where
  "get_default d k dflt = (case map_of d k of None \<Rightarrow> dflt | Some v \<Rightarrow> v)"

definition get :: "pydict \<Rightarrow> string \<Rightarrow> json" where
  "get d k = get_default d k JNull"

subsection \<open>Stage 1: the two filters\<close>

definition code_verifiable_categories :: "string list" where
  "code_verifiable_categories =
     [''Output '' @ arrow @ '' Specific format constraint'',
      ''Output '' @ arrow @ '' Numerical constraint'',
      ''Output '' @ arrow @ '' Lexical matching constraint'',
      ''Output '' @ arrow @ '' Lexical exclusion constraint'']"

text \<open>
  \<^verbatim>\<open>x in code_verifiable_categories\<close>: membership in a set hashes \<open>x\<close> first, and a
  list or a dictionary has no hash.
\<close>

fun hashable :: "json \<Rightarrow> bool" where
  "hashable (JArr xs) = False"
| "hashable (JObj d) = False"
| "hashable v = True"

fun json_type :: "json \<Rightarrow> string" where
  "json_type JNull = ''NoneType''"
| "json_type (JBool b) = ''bool''"
| "json_type (JNum n) = ''int''"
| "json_type (JStr s) = ''str''"
| "json_type (JArr xs) = ''list''"
| "json_type (JObj d) = ''dict''"

definition in_categories :: "json \<Rightarrow> py_error + bool" where
  "in_categories x =
     (if \<not> hashable x
      then Inl (Py_error ''TypeError'' (''unhashable type: '' @ [CHR 0x27] @ json_type x @ [CHR 0x27]))
      else Inr (case x of JStr s \<Rightarrow> s \<in> set code_verifiable_categories | _ \<Rightarrow> False))"

text \<open>Line 185, the list comprehension: an exception in the test ends it with no list.\<close>

fun filter_code_verifiable_constraints :: "pydict list \<Rightarrow> py_error + pydict list" where
  "filter_code_verifiable_constraints [] = Inr []"
| "filter_code_verifiable_constraints (c # cs) =
     (case in_categories (get c ''category'') of
        Inl e \<Rightarrow> Inl e
      | Inr keep \<Rightarrow>
          (case filter_code_verifiable_constraints cs of
             Inl e \<Rightarrow> Inl e
           | Inr kept \<Rightarrow> Inr (if keep then c # kept else kept)))"

text \<open>
  Lines 193 to 206. \<^verbatim>\<open>assess_single_conditional_bool\<close> asks the oracle and always comes
  back with a boolean (its own handler turns a failure into \<^verbatim>\<open>False\<close>); what the oracle
  answers is a parameter, with a state \<open>'s\<close> of its own since two calls on the same
  arguments need not agree. Its arguments are the constraint text, the source text and
  the prompt.
\<close>

type_synonym 's assessor = "json \<Rightarrow> json \<Rightarrow> string \<Rightarrow> 's \<Rightarrow> 's \<times> bool"

fun filter_code_verifiable_conditionals ::
  "'s assessor \<Rightarrow> pydict list \<Rightarrow> string \<Rightarrow> 's \<Rightarrow> 's \<times> pydict list" where
  "filter_code_verifiable_conditionals assess [] prompt_text s = (s, [])"
| "filter_code_verifiable_conditionals assess (c # cs) prompt_text s =
     (if get c ''application_type'' = JStr ''unconditional''
      then (case filter_code_verifiable_conditionals assess cs prompt_text s of
              (s', kept) \<Rightarrow> (s', c # kept))
      else if get c ''application_type'' = JStr ''conditional''
      then (case assess (get_default c ''constraint'' (JStr [])) (get_default c ''source'' (JStr []))
                   prompt_text s of
              (s1, ok) \<Rightarrow>
                (case filter_code_verifiable_conditionals assess cs prompt_text s1 of
                   (s', kept) \<Rightarrow> (s', if ok then c # kept else kept)))
      else filter_code_verifiable_conditionals assess cs prompt_text s)"

text \<open>Lines 235 and 236 of \<^verbatim>\<open>main\<close>: the first filter, then the second on its result.\<close>

definition stage1_filters ::
  "'s assessor \<Rightarrow> pydict list \<Rightarrow> string \<Rightarrow> 's \<Rightarrow> py_error + 's \<times> pydict list" where
  "stage1_filters assess raw_constraints prompt_text s =
     (case filter_code_verifiable_constraints raw_constraints of
        Inl e \<Rightarrow> Inl e
      | Inr filtered \<Rightarrow> Inr (filter_code_verifiable_conditionals assess filtered prompt_text s))"

text \<open>The words of the claim about the filters, on one record.\<close>

definition code_verifiable :: "pydict \<Rightarrow> bool" where
  "code_verifiable c = (\<exists>k \<in> set code_verifiable_categories. get c ''category'' = JStr k)"

definition is_unconditional :: "pydict \<Rightarrow> bool" where
  "is_unconditional c = (get c ''application_type'' = JStr ''unconditional'')"

definition is_conditional :: "pydict \<Rightarrow> bool" where
  "is_conditional c = (get c ''application_type'' = JStr ''conditional'')"

text \<open>Sample records.\<close>

definition rec_format :: pydict where
  "rec_format =
     [(''constraint'', JStr ''output must be JSON''),
      (''application_type'', JStr ''unconditional''),
      (''category'', JStr (''Output '' @ arrow @ '' Specific format constraint'')),
      (''source'', JStr ''Return JSON.'')]"

definition rec_tone :: pydict where
  "rec_tone =
     [(''constraint'', JStr ''be polite''),
      (''application_type'', JStr ''unconditional''),
      (''category'', JStr (''Output '' @ arrow @ '' Qualitative constraint''))]"

definition rec_length :: pydict where
  "rec_length =
     [(''constraint'', JStr ''at most 50 words when the input is a question''),
      (''application_type'', JStr ''conditional''),
      (''category'', JStr (''Output '' @ arrow @ '' Numerical constraint''))]"

definition rec_untyped :: pydict where
  "rec_untyped =
     [(''constraint'', JStr ''no digits''),
      (''category'', JStr (''Output '' @ arrow @ '' Lexical exclusion constraint''))]"

definition rec_list_category :: pydict where
  "rec_list_category =
     [(''constraint'', JStr ''output must be JSON''),
      (''application_type'', JStr ''unconditional''),
      (''category'', JArr [JStr (''Output '' @ arrow @ '' Specific format constraint'')])]"

text \<open>An oracle that finds every condition verifiable, and counts its calls.\<close>

definition always_yes :: "nat assessor" where
  "always_yes constraint_text source_text prompt_text n = (Suc n, True)"

subsection \<open>The calls to the oracle in stages 1, 2 and 3\<close>

text \<open>
  The reply of \<^verbatim>\<open>openai.chat.completions.create\<close>, as far as the stages read it:
  \<^verbatim>\<open>response.choices\<close>, and in each choice \<^verbatim>\<open>message.tool_calls\<close>, which is \<^verbatim>\<open>None\<close>
  when the reply holds no tool call, and in each tool call the text
  \<^verbatim>\<open>function.arguments\<close>. The call may raise instead: an instance of \<^verbatim>\<open>Exception\<close>
  where the client reports a failure (time-out, connection, authentication, rate limit,
  refused request), or an exception outside \<^verbatim>\<open>Exception\<close>, such as the
  \<^verbatim>\<open>KeyboardInterrupt\<close> of a user who interrupts the wait.
\<close>

datatype tool_call = Tool_call string

datatype choice = Choice "tool_call list option"

datatype api_outcome = Api_raises exc | Api_returns "choice list"

text \<open>
  The oracle, as a stage calls it: from the user message to the outcome of the call. The
  system prompt, the tool schema and the model name are fixed in each stage.
\<close>

type_synonym oracle_call = "string \<Rightarrow> api_outcome"

text \<open>
  \<^verbatim>\<open>json.loads(response.choices[0].message.tool_calls[0].function.arguments)\<close>. The
  parser \<open>loads\<close> is a parameter: \<open>None\<close> where it raises \<^verbatim>\<open>JSONDecodeError\<close>.
\<close>

fun tool_arguments :: "(string \<Rightarrow> json option) \<Rightarrow> choice list \<Rightarrow> exc + json" where
  "tool_arguments loads [] = Inl (Exc ''IndexError'' ''list index out of range'')"
| "tool_arguments loads (Choice None # cs) =
     Inl (Exc ''TypeError'' ([CHR 0x27] @ ''NoneType'' @ [CHR 0x27] @ '' object is not subscriptable''))"
| "tool_arguments loads (Choice (Some []) # cs) =
     Inl (Exc ''IndexError'' ''list index out of range'')"
| "tool_arguments loads (Choice (Some (Tool_call body # ts)) # cs) =
     (case loads body of
        None \<Rightarrow> Inl (Exc ''JSONDecodeError'' ''Expecting value'')
      | Some v \<Rightarrow> Inr v)"

text \<open>\<^verbatim>\<open>arguments[key]\<close> and \<^verbatim>\<open>arguments.get(key, default)\<close> on whatever was parsed.\<close>

fun subscript :: "json \<Rightarrow> string \<Rightarrow> exc + json" where
  "subscript (JObj d) k =
     (case map_of d k of
        None \<Rightarrow> Inl (Exc ''KeyError'' ([CHR 0x27] @ k @ [CHR 0x27]))
      | Some v \<Rightarrow> Inr v)"
| "subscript (JArr xs) k =
     Inl (Exc ''TypeError'' ''list indices must be integers or slices, not str'')"
| "subscript (JStr s) k =
     Inl (Exc ''TypeError''
            (''string indices must be integers, not '' @ [CHR 0x27] @ ''str'' @ [CHR 0x27]))"
| "subscript v k =
     Inl (Exc ''TypeError'' ([CHR 0x27] @ json_type v @ [CHR 0x27] @ '' object is not subscriptable''))"

fun get_method :: "json \<Rightarrow> string \<Rightarrow> json \<Rightarrow> exc + json" where
  "get_method (JObj d) k dflt = Inr (get_default d k dflt)"
| "get_method v k dflt =
     Inl (Exc ''AttributeError''
            ([CHR 0x27] @ json_type v @ [CHR 0x27] @ '' object has no attribute ''
             @ [CHR 0x27] @ ''get'' @ [CHR 0x27]))"

text \<open>
  The user messages of the three stages (lines 138, 97 and 85 of their files), the last
  two around the text that \<^verbatim>\<open>json.dumps\<close> has made of the constraints or of the tree.
\<close>

definition extraction_request :: "string \<Rightarrow> string" where
  "extraction_request prompt = ''Prompt template:'' @ nl @ prompt"



text \<open>
  The bodies of the three \<^verbatim>\<open>try\<close> blocks. \<^verbatim>\<open>json.dumps\<close> is a parameter \<open>dumps\<close>, which
  raises or gives the text. In stage 3 it is called inside the \<^verbatim>\<open>try\<close>, while the
  arguments of the call are built; in stage 2 it is called at line 97, before the
  \<^verbatim>\<open>try\<close>, so the body there starts from the message.
\<close>

definition extraction_try :: "(string \<Rightarrow> json option) \<Rightarrow> oracle_call \<Rightarrow> string \<Rightarrow> exc + json" where
  "extraction_try loads ask prompt =
     (case ask (extraction_request prompt) of
        Api_raises e \<Rightarrow> Inl e
      | Api_returns choices \<Rightarrow>
          (case tool_arguments loads choices of
             Inl e \<Rightarrow> Inl e
           | Inr arguments \<Rightarrow> get_method arguments ''constraints'' (JArr [])))"

definition tree_try :: "(string \<Rightarrow> json option) \<Rightarrow> oracle_call \<Rightarrow> string \<Rightarrow> exc + json" where
  "tree_try loads ask user_prompt =
     (case ask user_prompt of
        Api_raises e \<Rightarrow> Inl e
      | Api_returns choices \<Rightarrow>
          (case tool_arguments loads choices of
             Inl e \<Rightarrow> Inl e
           | Inr arguments \<Rightarrow> subscript arguments ''tree''))"












subsection \<open>Stage 2: the tree printer\<close>

text \<open>
  A node is a dictionary. Of its entries the printer reads six by subscript, whose
  values are \<^verbatim>\<open>None\<close>, booleans or strings as the tool schema and the prompt have them,
  and \<^verbatim>\<open>children\<close> by \<^verbatim>\<open>get\<close>: \<open>Node fs None\<close> has no key \<^verbatim>\<open>children\<close>, \<open>Node fs (Some cs)\<close>
  has the list \<open>cs\<close> under it. The interpreter's limit on the depth of recursion is
  not modelled.
\<close>

datatype fval = VNone | VBool bool | VStr string

datatype node = Node "(string \<times> fval) list" "node list option"

text \<open>\<^verbatim>\<open>str(v)\<close>, as an f-string formats a value, and the truth value of \<open>v\<close>.\<close>

fun fmt :: "fval \<Rightarrow> string" where
  "fmt VNone = ''None''"
| "fmt (VBool b) = (if b then ''True'' else ''False'')"
| "fmt (VStr s) = s"

fun is_true :: "fval \<Rightarrow> bool" where
  "is_true VNone = False"
| "is_true (VBool b) = b"
| "is_true (VStr s) = (s \<noteq> [])"

text \<open>The box-drawing glyphs U+2514, U+251C, U+2500 and U+2502, as their UTF-8 bytes.\<close>

definition corner :: string where
  "corner = [CHR 0xE2, CHR 0x94, CHR 0x94, CHR 0xE2, CHR 0x94, CHR 0x80,
             CHR 0xE2, CHR 0x94, CHR 0x80] @ '' ''"

definition tee :: string where
  "tee = [CHR 0xE2, CHR 0x94, CHR 0x9C, CHR 0xE2, CHR 0x94, CHR 0x80,
          CHR 0xE2, CHR 0x94, CHR 0x80] @ '' ''"

definition bar :: string where
  "bar = [CHR 0xE2, CHR 0x94, CHR 0x82] @ ''   ''"

definition branch :: "bool \<Rightarrow> string" where
  "branch is_last = (if is_last then corner else tee)"

definition condition_tag :: "fval \<Rightarrow> string" where
  "condition_tag c = (if is_true c then ''[COND]'' else ''[UNCOND]'')"

text \<open>\<^verbatim>\<open>node[k]\<close>, which raises \<^verbatim>\<open>KeyError\<close> on a key that is not there.\<close>

definition item :: "(string \<times> fval) list \<Rightarrow> string \<Rightarrow> py_error + fval" where
  "item fs k =
     (case map_of fs k of
        None \<Rightarrow> Inl (Py_error ''KeyError'' ([CHR 0x27] @ k @ [CHR 0x27]))
      | Some v \<Rightarrow> Inr v)"

text \<open>Lines 117 to 123: the line of a node, its fields read in the order of the source.\<close>

definition node_line :: "(string \<times> fval) list \<Rightarrow> string \<Rightarrow> bool \<Rightarrow> py_error + string" where
  "node_line fs pfx is_last =
     (case item fs ''conditional'' of Inl e \<Rightarrow> Inl e | Inr conditional \<Rightarrow>
     (case item fs ''parent_ok'' of Inl e \<Rightarrow> Inl e | Inr parent_ok \<Rightarrow>
     (case item fs ''constraint_category'' of Inl e \<Rightarrow> Inl e | Inr category \<Rightarrow>
     (case item fs ''scope'' of Inl e \<Rightarrow> Inl e | Inr scope \<Rightarrow>
     (case item fs ''constraint'' of Inl e \<Rightarrow> Inl e | Inr constraint \<Rightarrow>
     (case item fs ''source'' of Inl e \<Rightarrow> Inl e | Inr source \<Rightarrow>
        Inr (pfx @ branch is_last @ condition_tag conditional @ '' ''
             @ ''(parent_met='' @ fmt parent_ok @ '') | ''
             @ ''constraint_category: '' @ fmt category
             @ '' | scope: '' @ fmt scope
             @ '' | constraint: '' @ fmt constraint
             @ '' | source: '' @ fmt source)))))))"

text \<open>
  \<^verbatim>\<open>pretty_print_tree\<close> and its loop over \<^verbatim>\<open>node.get("children", [])\<close>, where
  \<^verbatim>\<open>idx == len(children) - 1\<close> holds at the last child only. The result is the lines printed, and the exception that
  ended the printing if one did.
\<close>

fun pretty_print_tree :: "node \<Rightarrow> string \<Rightarrow> bool \<Rightarrow> string list \<times> py_error option"
and print_children :: "node list \<Rightarrow> string \<Rightarrow> string list \<times> py_error option" where
  "pretty_print_tree (Node fs None) pfx is_last =
     (case node_line fs pfx is_last of
        Inl e \<Rightarrow> ([], Some e)
      | Inr line \<Rightarrow> ([line], None))"
| "pretty_print_tree (Node fs (Some cs)) pfx is_last =
     (case node_line fs pfx is_last of
        Inl e \<Rightarrow> ([], Some e)
      | Inr line \<Rightarrow>
          (case print_children cs (pfx @ (if is_last then ''    '' else bar)) of
             (printed, r) \<Rightarrow> (line # printed, r)))"
| "print_children [] new_prefix = ([], None)"
| "print_children (child # rest) new_prefix =
     (case pretty_print_tree child new_prefix (rest = []) of
        (printed, Some e) \<Rightarrow> (printed, Some e)
      | (printed, None) \<Rightarrow>
          (case print_children rest new_prefix of
             (more, r) \<Rightarrow> (printed @ more, r)))"

text \<open>
  The words of the specification. A node carries all its fields; the nodes of a tree in
  depth-first pre-order, each with the mark of being the last child of its parent; the
  annotation of a node, which is its line without indentation and glyph.
\<close>

definition node_fields :: "string list" where
  "node_fields = [''conditional'', ''parent_ok'', ''constraint_category'', ''scope'',
                  ''constraint'', ''source'']"

fun complete :: "node \<Rightarrow> bool" where
  "complete (Node fs None) = list_all (\<lambda>k. map_of fs k \<noteq> None) node_fields"
| "complete (Node fs (Some cs)) =
     (list_all (\<lambda>k. map_of fs k \<noteq> None) node_fields \<and> list_all complete cs)"

fun preorder :: "node \<Rightarrow> bool \<Rightarrow> (bool \<times> node) list"
and preorder_children :: "node list \<Rightarrow> (bool \<times> node) list" where
  "preorder (Node fs None) is_last = [(is_last, Node fs None)]"
| "preorder (Node fs (Some cs)) is_last = (is_last, Node fs (Some cs)) # preorder_children cs"
| "preorder_children [] = []"
| "preorder_children (child # rest) = preorder child (rest = []) @ preorder_children rest"

definition field_text :: "(string \<times> fval) list \<Rightarrow> string \<Rightarrow> string" where
  "field_text fs k = (case map_of fs k of None \<Rightarrow> [] | Some v \<Rightarrow> fmt v)"

fun annotation :: "node \<Rightarrow> string" where
  "annotation (Node fs ch) =
     (case map_of fs ''conditional'' of
        None \<Rightarrow> []
      | Some c \<Rightarrow>
          condition_tag c @ '' ''
          @ ''(parent_met='' @ field_text fs ''parent_ok'' @ '') | ''
          @ ''constraint_category: '' @ field_text fs ''constraint_category''
          @ '' | scope: '' @ field_text fs ''scope''
          @ '' | constraint: '' @ field_text fs ''constraint''
          @ '' | source: '' @ field_text fs ''source'')"

definition printed_as :: "string \<Rightarrow> bool \<times> node \<Rightarrow> bool" where
  "printed_as line p = (\<exists>indent. line = indent @ branch (fst p) @ annotation (snd p))"

text \<open>
  Sample trees. \<open>leaf_yes\<close> and \<open>leaf_no\<close> are leaves as the exchange format of the
  specification has them, without \<^verbatim>\<open>source\<close> and \<^verbatim>\<open>scope\<close>; \<open>full_yes\<close> and \<open>full_no\<close>
  are leaves as the prompt of stage 2 asks for them, with both keys present and \<^verbatim>\<open>None\<close>.
\<close>

definition leaf_yes :: node where
  "leaf_yes = Node [(''conditional'', VBool False), (''parent_ok'', VBool True),
                    (''constraint_category'', VStr ''result''), (''constraint'', VStr ''yes'')]
                   (Some [])"

definition leaf_no :: node where
  "leaf_no = Node [(''conditional'', VBool False), (''parent_ok'', VBool False),
                   (''constraint_category'', VStr ''result''), (''constraint'', VStr ''no'')]
                  (Some [])"

definition full_yes :: node where
  "full_yes = Node [(''conditional'', VBool False), (''parent_ok'', VBool True),
                    (''constraint_category'', VStr ''result''), (''constraint'', VStr ''yes''),
                    (''source'', VNone), (''scope'', VNone)]
                   (Some [])"

definition full_no :: node where
  "full_no = Node [(''conditional'', VBool False), (''parent_ok'', VBool False),
                   (''constraint_category'', VStr ''result''), (''constraint'', VStr ''no''),
                   (''source'', VNone), (''scope'', VNone)]
                  (Some [])"

definition root_fields :: "(string \<times> fval) list" where
  "root_fields = [(''conditional'', VBool False), (''parent_ok'', VBool True),
                  (''constraint_category'', VStr ''numerical''),
                  (''constraint'', VStr ''at most 5 words''),
                  (''source'', VStr ''Be brief.''), (''scope'', VStr ''entire output'')]"

definition exchange_tree :: node where
  "exchange_tree = Node root_fields (Some [leaf_yes, leaf_no])"

definition full_tree :: node where
  "full_tree = Node root_fields (Some [full_yes, full_no])"

section \<open>Properties of the harness\<close>

subsection \<open>Evaluating the samples\<close>















subsection \<open>The paths through the harness\<close>











subsection \<open>The claims about the harness\<close>





















section \<open>Properties of the stages\<close>

subsection \<open>The filters of stage 1\<close>

lemma in_categories_hashable:
  "hashable (get c ''category'') \<Longrightarrow> in_categories (get c ''category'') = Inr (code_verifiable c)"
  by (cases "get c ''category''") (auto simp: in_categories_def code_verifiable_def)

lemma first_filter:
  "\<forall>c \<in> set cs. hashable (get c ''category'') \<Longrightarrow>
     filter_code_verifiable_constraints cs = Inr (filter code_verifiable cs)"
  by (induction cs) (simp_all add: in_categories_hashable)

lemma first_filter_raises:
  "filter_code_verifiable_constraints cs = Inr kept \<Longrightarrow> \<forall>c \<in> set cs. hashable (get c ''category'')"
  by (induction cs arbitrary: kept)
     (auto simp: in_categories_def split: sum.splits if_splits)

lemma second_filter:
  "filter_code_verifiable_conditionals assess cs prompt_text s = (s', kept) \<Longrightarrow>
     subseq kept cs
     \<and> subseq (filter is_unconditional cs) kept
     \<and> (\<forall>c \<in> set kept. is_unconditional c \<or> is_conditional c)"
proof (induction cs arbitrary: s s' kept)
  case Nil
  then show ?case by simp
next
  case (Cons c cs)
  show ?case
  proof (cases "is_unconditional c")
    case True
    obtain t r where rest: "filter_code_verifiable_conditionals assess cs prompt_text s = (t, r)"
      by (cases "filter_code_verifiable_conditionals assess cs prompt_text s")
    with Cons.prems True have "kept = c # r"
      by (simp add: is_unconditional_def)
    with Cons.IH [OF rest] True show ?thesis by simp
  next
    case False
    note not_uncond = this
    show ?thesis
    proof (cases "is_conditional c")
      case True
      obtain s1 ok where a: "assess (get_default c ''constraint'' (JStr []))
          (get_default c ''source'' (JStr [])) prompt_text s = (s1, ok)"
        by (cases "assess (get_default c ''constraint'' (JStr []))
          (get_default c ''source'' (JStr [])) prompt_text s")
      obtain t r where rest: "filter_code_verifiable_conditionals assess cs prompt_text s1 = (t, r)"
        by (cases "filter_code_verifiable_conditionals assess cs prompt_text s1")
      with Cons.prems True not_uncond a have "kept = (if ok then c # r else r)"
        by (simp add: is_unconditional_def is_conditional_def)
      with Cons.IH [OF rest] True not_uncond show ?thesis by auto
    next
      case False
      with Cons.prems not_uncond
      have "filter_code_verifiable_conditionals assess cs prompt_text s = (s', kept)"
        by (simp add: is_unconditional_def is_conditional_def)
      from Cons.IH [OF this] not_uncond show ?thesis by auto
    qed
  qed
qed

text \<open>
  \<^bold>\<open>C10\<close> (as amended). For every constraint list in which no record has a list or a
  dictionary as its category, the two filters of stage 1, run one after the other,
  return a subsequence of the input in the order of the input; every record kept has one
  of the four code-verifiable categories; every record with application type
  \<^verbatim>\<open>unconditional\<close> and a code-verifiable category is kept, unchanged; and no record is
  kept whose application type is neither \<^verbatim>\<open>unconditional\<close> nor \<^verbatim>\<open>conditional\<close>, a
  missing one included.
\<close>

theorem stage1_filters_keep:
  assumes "\<forall>c \<in> set cs. hashable (get c ''category'')"
  shows "\<exists>s' kept. stage1_filters assess cs prompt_text s = Inr (s', kept)
           \<and> subseq kept cs
           \<and> (\<forall>c \<in> set kept. code_verifiable c)
           \<and> subseq (filter (\<lambda>c. is_unconditional c \<and> code_verifiable c) cs) kept
           \<and> (\<forall>c \<in> set kept. is_unconditional c \<or> is_conditional c)"
proof -
  let ?f = "filter code_verifiable cs"
  obtain s' kept where
    run: "filter_code_verifiable_conditionals assess ?f prompt_text s = (s', kept)"
    by (cases "filter_code_verifiable_conditionals assess ?f prompt_text s")
  from second_filter [OF run]
  have sub: "subseq kept ?f" and unc: "subseq (filter is_unconditional ?f) kept"
    and typed: "\<forall>c \<in> set kept. is_unconditional c \<or> is_conditional c"
    by simp_all
  have "subseq ?f cs" by simp
  with sub have 1: "subseq kept cs" by (rule subseq_order.trans)
  have 2: "\<forall>c \<in> set kept. code_verifiable c"
  proof
    fix c assume "c \<in> set kept"
    with sub obtain c' where "c' \<in> set ?f" and "c = c'" by (rule list_emb_set)
    then show "code_verifiable c" by simp
  qed
  have "filter is_unconditional ?f = filter (\<lambda>c. is_unconditional c \<and> code_verifiable c) cs"
    by (simp add: conj_commute)
  with unc have 3: "subseq (filter (\<lambda>c. is_unconditional c \<and> code_verifiable c) cs) kept"
    by simp
  from first_filter [OF assms] run 1 2 3 typed show ?thesis
    by (simp add: stage1_filters_def)
qed

text \<open>
  Four records: the qualitative one and the one without application type are dropped,
  the conditional one is kept on the oracle's word.
\<close>

theorem stage1_filters_keep_witness:
  "stage1_filters always_yes [rec_format, rec_tone, rec_length, rec_untyped] ''p'' 0 =
     Inr (1, [rec_format, rec_length])"
  using stage1_filters_keep [of "[rec_format, rec_tone, rec_length, rec_untyped]" always_yes "''p''" 0]
  by (simp add: stage1_filters_def in_categories_def get_def get_default_def
        code_verifiable_categories_def arrow_def always_yes_def
        rec_format_def rec_tone_def rec_length_def rec_untyped_def)

text \<open>
  C10 as stated fails on a record whose category is a list: the membership test of
  line 185 raises \<^verbatim>\<open>TypeError\<close>, and the filters return nothing.
\<close>

theorem list_category_raises:
  "stage1_filters always_yes [rec_format, rec_list_category] ''p'' 0 =
     Inl (Py_error ''TypeError'' (''unhashable type: '' @ [CHR 0x27] @ ''list'' @ [CHR 0x27]))"
  by (simp add: stage1_filters_def in_categories_def get_def get_default_def
        code_verifiable_categories_def arrow_def
        rec_format_def rec_list_category_def)

subsection \<open>The oracle calls\<close>

lemma tool_arguments_raises_Exception: "tool_arguments loads choices = Inl e \<Longrightarrow> is_Exception e"
  by (induction loads choices rule: tool_arguments.induct) (auto split: option.splits)

lemma subscript_raises_Exception: "subscript a k = Inl e \<Longrightarrow> is_Exception e"
  by (cases a) (auto split: option.splits)

lemma get_method_raises_Exception: "get_method a k dflt = Inl e \<Longrightarrow> is_Exception e"
  by (cases a) auto

lemma reply_faults_are_Exceptions:
  "ask (extraction_request prompt) = Api_returns choices \<Longrightarrow>
     extraction_try loads ask prompt = Inl e \<Longrightarrow> is_Exception e"
  "ask user_prompt = Api_returns choices \<Longrightarrow>
     tree_try loads ask user_prompt = Inl e \<Longrightarrow> is_Exception e"
  by (auto simp: extraction_try_def tree_try_def split: sum.splits
        dest: tool_arguments_raises_Exception subscript_raises_Exception
          get_method_raises_Exception)




subsection \<open>The tree printer\<close>

lemma item_present: "map_of fs k = Some v \<Longrightarrow> item fs k = Inr v"
  by (simp add: item_def)

lemma node_line_complete:
  assumes "list_all (\<lambda>k. map_of fs k \<noteq> None) node_fields"
  shows "node_line fs pfx is_last = Inr (pfx @ branch is_last @ annotation (Node fs ch))"
proof -
  from assms obtain c p g s t r where
    "map_of fs ''conditional'' = Some c" "map_of fs ''parent_ok'' = Some p"
    "map_of fs ''constraint_category'' = Some g" "map_of fs ''scope'' = Some s"
    "map_of fs ''constraint'' = Some t" "map_of fs ''source'' = Some r"
    by (auto simp: node_fields_def)
  then show ?thesis
    by (simp add: node_line_def item_def field_text_def)
qed

lemma printer_complete:
  "complete t \<Longrightarrow>
     (\<exists>printed. pretty_print_tree t pfx is_last = (printed, None)
        \<and> list_all2 printed_as printed (preorder t is_last))"
  "list_all complete ts \<Longrightarrow>
     (\<exists>printed. print_children ts new_prefix = (printed, None)
        \<and> list_all2 printed_as printed (preorder_children ts))"
proof (induction t pfx is_last and ts new_prefix rule: pretty_print_tree_print_children.induct)
  case (1 fs pfx is_last)
  from "1.prems" have "list_all (\<lambda>k. map_of fs k \<noteq> None) node_fields"
    by (simp only: complete.simps)
  then have "node_line fs pfx is_last =
      Inr (pfx @ branch is_last @ annotation (Node fs None))"
    by (rule node_line_complete)
  moreover have "printed_as (pfx @ branch is_last @ annotation (Node fs None))
      (is_last, Node fs None)"
    unfolding printed_as_def by auto
  ultimately show ?case by simp
next
  case (2 fs cs pfx is_last)
  from "2.prems" have fields: "list_all (\<lambda>k. map_of fs k \<noteq> None) node_fields"
    and kids: "list_all complete cs" by (simp_all only: complete.simps)
  note line = node_line_complete [OF fields, of pfx is_last "Some cs"]
  from "2.IH" [OF line kids] obtain printed where
    "print_children cs (pfx @ (if is_last then ''    '' else bar)) = (printed, None)"
    and "list_all2 printed_as printed (preorder_children cs)" by blast
  moreover have "printed_as (pfx @ branch is_last @ annotation (Node fs (Some cs)))
      (is_last, Node fs (Some cs))"
    unfolding printed_as_def by auto
  ultimately show ?case using line by simp
next
  case (3 new_prefix)
  then show ?case by simp
next
  case (4 child rest new_prefix)
  from "4.prems" have c: "complete child" and r: "list_all complete rest" by simp_all
  from "4.IH"(1) [OF c] obtain p1 where
    p1: "pretty_print_tree child new_prefix (rest = []) = (p1, None)"
    and a1: "list_all2 printed_as p1 (preorder child (rest = []))" by blast
  from "4.IH"(2) [OF _ _ r] p1 obtain p2 where
    p2: "print_children rest new_prefix = (p2, None)"
    and a2: "list_all2 printed_as p2 (preorder_children rest)" by auto
  from p1 p2 a1 a2 show ?case by (auto intro: list_all2_appendI)
qed

lemma full_tree_preorder:
  "preorder full_tree True = [(True, full_tree), (False, full_yes), (True, full_no)]"
  by (simp add: full_tree_def full_yes_def full_no_def)

text \<open>
  \<^bold>\<open>C7\<close> (as amended). For every tree in which every node, the leaves included, has
  the six keys \<^verbatim>\<open>conditional\<close>, \<^verbatim>\<open>parent_ok\<close>, \<^verbatim>\<open>constraint_category\<close>, \<^verbatim>\<open>scope\<close>,
  \<^verbatim>\<open>constraint\<close> and \<^verbatim>\<open>source\<close> (a leaf holding \<^verbatim>\<open>None\<close> under \<^verbatim>\<open>source\<close> and \<^verbatim>\<open>scope\<close>),
  the printer raises nothing and prints exactly one line per node, in depth-first
  pre-order; each line is an indentation, then the corner glyph if the node is the last
  child of its parent (or the root) and the tee glyph if it is an earlier sibling, then
  the tag, \<^verbatim>\<open>parent_met\<close>, category, scope, constraint and source of the node.
\<close>

theorem printer_renders_preorder:
  assumes "complete t"
  shows "\<exists>printed. pretty_print_tree t pfx is_last = (printed, None)
           \<and> length printed = length (preorder t is_last)
           \<and> list_all2 printed_as printed (preorder t is_last)"
  using printer_complete(1) [OF assms, of pfx is_last]
  by (auto dest: list_all2_lengthD)

text \<open>A root and two leaves with all their keys: three lines.\<close>

theorem printer_renders_preorder_witness:
  "(\<exists>l1 l2 l3. pretty_print_tree full_tree [] True = ([l1, l2, l3], None)
       \<and> printed_as l1 (True, full_tree) \<and> printed_as l2 (False, full_yes)
       \<and> printed_as l3 (True, full_no))"
proof -
  have "complete full_tree"
    by (simp add: full_tree_def full_yes_def full_no_def root_fields_def node_fields_def)
  from printer_renders_preorder [OF this, of "[]" True]
  show ?thesis
    by (auto simp: full_tree_preorder list_all2_Cons2)
qed

text \<open>
  C7 as stated fails on the trees it names: a leaf without \<^verbatim>\<open>source\<close> and \<^verbatim>\<open>scope\<close>
  makes line 122 raise \<^verbatim>\<open>KeyError\<close>. On a root with two such leaves the printer prints
  the line of the root and stops at the first leaf: one line for three nodes.
\<close>

theorem exchange_format_leaf_raises:
  "pretty_print_tree exchange_tree [] True =
     ([corner @ ''[UNCOND] (parent_met=True) | constraint_category: numerical''
         @ '' | scope: entire output | constraint: at most 5 words | source: Be brief.''],
      Some (Py_error ''KeyError'' ([CHR 0x27] @ ''scope'' @ [CHR 0x27])))
   \<and> length (preorder exchange_tree True) = 3"
  by (simp add: exchange_tree_def leaf_yes_def leaf_no_def root_fields_def node_line_def
        item_def branch_def condition_tag_def)

end
